theory Spec2Isabelle
  imports Main
begin

section \<open>JavaScript values the two providers handle\<close>

text \<open>
  A property of a JavaScript object is in one of three states: the key is not there
  (\<open>Absent\<close>), the key is there and holds \<open>undefined\<close> or \<open>null\<close> (\<open>Nullish\<close>), or the
  key holds a value (\<open>Present\<close>). Object spread copies the last two and skips the
  first; the test \<open>!x\<close> on an array or object property is true for the first two.
\<close>

datatype 'a jsprop = Absent | Nullish | Present 'a

text \<open>\<open>!o.f\<close> for a property whose values are arrays or objects (always truthy).\<close>

fun falsy :: "'a jsprop \<Rightarrow> bool" where
  "falsy (Present v) = False"
| "falsy Absent = True"
| "falsy Nullish = True"

text \<open>One property of \<open>{...a, ...b}\<close>: the key of \<open>b\<close> wins whenever \<open>b\<close> has the key.\<close>

fun over :: "'a jsprop \<Rightarrow> 'a jsprop \<Rightarrow> 'a jsprop" where
  "over x Absent = x"
| "over x Nullish = Nullish"
| "over x (Present v) = Present v"

text \<open>Assigning \<open>o.f = e\<close> creates the key; reading a missing key gives \<open>undefined\<close>.\<close>

fun assigned :: "'a jsprop \<Rightarrow> 'a jsprop" where
  "assigned (Present v) = Present v"
| "assigned Absent = Nullish"
| "assigned Nullish = Nullish"

text \<open>
  A settings object is a dictionary; spreading a missing one contributes no key.
\<close>

fun own :: "('k \<rightharpoonup> 'v) jsprop \<Rightarrow> ('k \<rightharpoonup> 'v)" where
  "own (Present m) = m"
| "own Absent = Map.empty"
| "own Nullish = Map.empty"

text \<open>\<open>xs[i]\<close>: \<open>undefined\<close> (here \<open>None\<close>) outside the array.\<close>

definition js_index :: "'a list \<Rightarrow> int \<Rightarrow> 'a option" where
  "js_index xs i = (if 0 \<le> i \<and> i < int (length xs) then Some (xs ! nat i) else None)"

text \<open>\<open>xs.slice(0, e)\<close>: a negative end counts from the end of the array.\<close>

definition js_slice0 :: "'a list \<Rightarrow> int \<Rightarrow> 'a list" where
  "js_slice0 xs e =
     (let n = int (length xs);
          k = (if e < 0 then max (n + e) 0 else min e n)
      in take (nat k) xs)"

section \<open>The document\<close>

text \<open>
  The type declarations of the document live in a module that the two providers
  import; the providers never look inside a subject, class, room, schedule entry,
  substitution, bell schedule, settings value or shift, so these are values of one
  opaque type \<open>'j\<close>. A teacher has the two properties the load path fills in and the
  rest of the record. A document, whether current, delivered by the store or
  given as an update, has the declared type in every property it holds; what the
  code provides for beyond that, and the model with it, is a property that is
  missing or null.
\<close>

record 'j Teacher =
  shifts :: "'j list jsprop"
  telegramChatId :: "string jsprop"
  rest :: 'j

record 'j AppData =
  subjects :: "'j list jsprop"
  teachers :: "'j Teacher list jsprop"
  classes :: "'j list jsprop"
  rooms :: "'j list jsprop"
  schedule :: "'j list jsprop"
  substitutions :: "'j list jsprop"
  bellSchedule :: "'j jsprop"
  settings :: "(string \<rightharpoonup> 'j) jsprop"

text \<open>
  The constants the providers import from modules outside this development:
  the default document, the default bell schedule and the two shifts.
\<close>

record 'j constants =
  INITIAL_DATA :: "'j AppData"
  DEFAULT_BELLS :: 'j
  Shift_First :: 'j
  Shift_Second :: 'j

text \<open>The empty object \<open>{}\<close>, which is what spreading \<open>undefined\<close> contributes.\<close>

definition empty_object :: "'j AppData" where
  "empty_object =
     \<lparr>subjects = Absent, teachers = Absent, classes = Absent, rooms = Absent,
      schedule = Absent, substitutions = Absent, bellSchedule = Absent,
      settings = Absent\<rparr>"

text \<open>\<open>{...a, ...b}\<close> on documents.\<close>

definition spread :: "'j AppData \<Rightarrow> 'j AppData \<Rightarrow> 'j AppData" where
  "spread a b =
     \<lparr>subjects = over (subjects a) (subjects b),
      teachers = over (teachers a) (teachers b),
      classes = over (classes a) (classes b),
      rooms = over (rooms a) (rooms b),
      schedule = over (schedule a) (schedule b),
      substitutions = over (substitutions a) (substitutions b),
      bellSchedule = over (bellSchedule a) (bellSchedule b),
      settings = over (settings a) (settings b)\<rparr>"

fun spreadable :: "'j AppData option \<Rightarrow> 'j AppData" where
  "spreadable None = empty_object"
| "spreadable (Some d) = d"

section \<open>The identity and session provider\<close>

record User =
  uid :: string
  email :: "string option"

datatype UserRole = admin | teacher | guest

record AuthState =
  user :: "User option"
  role :: "UserRole option"
  loading :: bool

datatype auth_event = SignOut | AuthWarn

text \<open>
  What a remote call answers: its promise is fulfilled, is rejected with an error,
  or never settles. The promise of an operation that awaits the call resolves,
  rejects with that error, or stays pending at the \<open>await\<close>.
\<close>

datatype reply = Fulfilled | Failed string | NoReply

datatype outcome = Resolved | Rejected string | Pending

text \<open>An answer that settles: \<open>None\<close> for fulfilled, \<open>Some e\<close> for rejected with \<open>e\<close>.\<close>

fun settled :: "string option \<Rightarrow> reply" where
  "settled None = Fulfilled"
| "settled (Some e) = Failed e"

definition ADMIN_EMAIL :: string where
  "ADMIN_EMAIL = ''admin@gymnasium22.com''"

definition TEACHER_EMAIL :: string where
  "TEACHER_EMAIL = ''teacher@gymnasium22.com''"

definition initial_auth :: AuthState where
  "initial_auth = \<lparr>user = None, role = None, loading = True\<rparr>"

text \<open>
  The callback given to \<open>onAuthStateChanged\<close>. The flag \<open>auth\<close> says whether the
  module-level handle is defined, which \<open>auth?.signOut()\<close> tests; the callback is
  registered through that handle, so it only ever runs with \<open>auth\<close> true.
\<close>

definition onAuthStateChanged :: "bool \<Rightarrow> User option \<Rightarrow> AuthState \<Rightarrow> AuthState \<times> auth_event list" where
  "onAuthStateChanged auth currentUser st =
     (let st = st\<lparr>user := currentUser\<rparr> in
      case currentUser of
        Some u \<Rightarrow>
          if email u = Some ADMIN_EMAIL then (st\<lparr>role := Some admin, loading := False\<rparr>, [])
          else if email u = Some TEACHER_EMAIL then (st\<lparr>role := Some teacher, loading := False\<rparr>, [])
          else (st\<lparr>role := None, loading := False\<rparr>, if auth then [SignOut] else [])
      | None \<Rightarrow> (st\<lparr>role := None, loading := False\<rparr>, []))"

text \<open>The effect run on mount: without a handle it only clears the loading flag.\<close>

definition auth_mount :: "bool \<Rightarrow> AuthState \<Rightarrow> AuthState \<times> auth_event list" where
  "auth_mount auth st = (if \<not> auth then (st\<lparr>loading := False\<rparr>, [AuthWarn]) else (st, []))"

text \<open>
  \<open>logout\<close> awaits the sign-out before it clears the role; \<open>signOut_reply\<close> is what
  the identity provider answers.
\<close>

definition logout ::
  "bool \<Rightarrow> reply \<Rightarrow> AuthState \<Rightarrow> AuthState \<times> auth_event list \<times> outcome" where
  "logout auth signOut_reply st =
     (if auth
      then (case signOut_reply of
              Fulfilled \<Rightarrow> (st\<lparr>role := None\<rparr>, [SignOut], Resolved)
            | Failed e \<Rightarrow> (st, [SignOut], Rejected e)
            | NoReply \<Rightarrow> (st, [SignOut], Pending))
      else (st\<lparr>role := None\<rparr>, [], Resolved))"

definition setGuestRole :: "AuthState \<Rightarrow> AuthState" where
  "setGuestRole st = st\<lparr>role := Some guest, loading := False\<rparr>"

section \<open>The full-data provider\<close>

text \<open>
  The state of the provider. \<open>data\<close> is \<open>None\<close> when it holds \<open>undefined\<close>, which is
  what reading the history outside its bounds gives.
\<close>

record 'j DataState =
  data :: "'j AppData option"
  isLoading :: bool
  history :: "'j AppData list"
  historyPointer :: int

text \<open>What the provider is given: its \<open>initialData\<close> property and the session.\<close>

record 'j Env =
  initialData :: "'j AppData option"
  session :: AuthState

text \<open>
  What the provider does to the outside: calls of \<open>dbService.save\<close> and console
  output.
\<close>

datatype 'j event =
    DbSave "'j AppData option"
  | ConsoleWarn
  | ConsoleError string

definition initial_state :: "'j constants \<Rightarrow> 'j DataState" where
  "initial_state c =
     \<lparr>data = Some (INITIAL_DATA c), isLoading = True, history = [], historyPointer = - 1\<rparr>"

subsection \<open>Loading\<close>

definition normalize_teacher :: "'j constants \<Rightarrow> 'j Teacher \<Rightarrow> 'j Teacher" where
  "normalize_teacher c t =
     t\<lparr>shifts := over (Present [Shift_First c, Shift_Second c]) (shifts t),
       telegramChatId := over (Present '''') (telegramChatId t)\<rparr>"

text \<open>
  The document the subscription callback builds from a delivered one. After the
  guard on \<open>teachers\<close> the property is an array, so \<open>map\<close> always has one to run on.
\<close>

definition fixedData :: "'j constants \<Rightarrow> 'j AppData \<Rightarrow> 'j AppData" where
  "fixedData c loaded =
     (let fd = spread (INITIAL_DATA c) loaded;
          fd = (if falsy (teachers fd) then fd\<lparr>teachers := Present []\<rparr> else fd);
          fd = fd\<lparr>teachers := map_jsprop (map (normalize_teacher c)) (teachers fd)\<rparr>;
          fd = (if falsy (schedule fd) then fd\<lparr>schedule := Present []\<rparr> else fd);
          fd = (if falsy (substitutions fd) then fd\<lparr>substitutions := Present []\<rparr> else fd);
          fd = (if falsy (bellSchedule fd) then fd\<lparr>bellSchedule := Present (DEFAULT_BELLS c)\<rparr> else fd);
          fd = (if falsy (settings fd)
                then fd\<lparr>settings := assigned (settings (INITIAL_DATA c))\<rparr>
                else fd\<lparr>settings := Present (own (settings (INITIAL_DATA c)) ++ own (settings fd))\<rparr>)
      in fd)"

text \<open>The subscription's data callback and its error callback.\<close>

definition onData :: "'j constants \<Rightarrow> 'j AppData \<Rightarrow> 'j DataState \<Rightarrow> 'j DataState" where
  "onData c loaded s =
     (let fd = fixedData c loaded in
      s\<lparr>data := Some fd,
        history := (if length (history s) = 0 then [fd] else history s),
        historyPointer := (if historyPointer s = - 1 then 0 else historyPointer s),
        isLoading := False\<rparr>)"

definition onError :: "'j constants \<Rightarrow> 'j DataState \<Rightarrow> 'j DataState \<times> 'j event list" where
  "onError c s =
     (s\<lparr>data := Some (INITIAL_DATA c), isLoading := False\<rparr>,
      [ConsoleError ''Failed to subscribe to data:''])"

text \<open>
  The effect that runs on mount and whenever the property or the session changes.
  The flag in the result says whether it subscribed to the store.
\<close>

definition loadEffect :: "'j constants \<Rightarrow> 'j Env \<Rightarrow> 'j DataState \<Rightarrow> 'j DataState \<times> bool" where
  "loadEffect c env s =
     (case initialData env of
        Some d \<Rightarrow>
          (s\<lparr>data := Some d, history := [d], historyPointer := 0, isLoading := False\<rparr>, False)
      | None \<Rightarrow>
          if loading (session env) then (s, False)
          else if \<not> (user (session env) \<noteq> None \<or> role (session env) = Some guest)
          then (s\<lparr>data := Some (INITIAL_DATA c), isLoading := False\<rparr>, False)
          else (s\<lparr>isLoading := True\<rparr>, True))"

subsection \<open>Saving, undo and redo\<close>

text \<open>
  \<open>dbService.save\<close> belongs to the store adapter; what it answers is a parameter
  of each operation. Each operation returns the new state, what it did to the
  outside, in order, and what becomes of its own promise. State changes made
  before an \<open>await\<close> stay whatever the answer; those after it are made only once
  the awaited promise has settled.
\<close>

definition saveData ::
  "'j Env \<Rightarrow> reply \<Rightarrow> 'j AppData \<Rightarrow> bool \<Rightarrow> 'j DataState
     \<Rightarrow> 'j DataState \<times> 'j event list \<times> outcome" where
  "saveData env save_reply newData addToHistory s =
     (let isGuest = (user (session env) = None \<and> role (session env) = Some guest);
          mergedData = spread (spreadable (data s)) newData;
          s1 = s\<lparr>data := Some mergedData\<rparr>;
          persist = (initialData env = None \<and> user (session env) \<noteq> None \<and> \<not> isGuest)
      in if persist \<and> save_reply = NoReply
         then (s1, [DbSave (Some mergedData)], Pending)
         else
           (let evs = (if persist
                       then DbSave (Some mergedData) #
                            (case save_reply of
                               Failed e \<Rightarrow> [ConsoleError ''Save failed silently in background'']
                             | _ \<Rightarrow> [])
                       else if isGuest then [ConsoleWarn]
                       else []);
                s2 = (if addToHistory
                      then (let newHistory =
                                  js_slice0 (history s) (historyPointer s + 1) @ [mergedData];
                                newHistory =
                                  (if length newHistory > 50 then tl newHistory else newHistory)
                            in s1\<lparr>history := newHistory,
                                  historyPointer := int (length newHistory) - 1\<rparr>)
                      else s1)
            in (s2, evs, Resolved)))"

text \<open>What becomes of a promise that does nothing but await the store.\<close>

fun awaited :: "reply \<Rightarrow> outcome" where
  "awaited Fulfilled = Resolved"
| "awaited (Failed e) = Rejected e"
| "awaited NoReply = Pending"

definition undo ::
  "'j Env \<Rightarrow> reply \<Rightarrow> 'j DataState \<Rightarrow> 'j DataState \<times> 'j event list \<times> outcome" where
  "undo env save_reply s =
     (if historyPointer s > 0
      then (let prevData = js_index (history s) (historyPointer s - 1);
                s1 = s\<lparr>historyPointer := historyPointer s - 1, data := prevData\<rparr>
            in if initialData env = None \<and> user (session env) \<noteq> None
               then (s1, [DbSave prevData], awaited save_reply)
               else (s1, [], Resolved))
      else (s, [], Resolved))"

definition redo ::
  "'j Env \<Rightarrow> reply \<Rightarrow> 'j DataState \<Rightarrow> 'j DataState \<times> 'j event list \<times> outcome" where
  "redo env save_reply s =
     (if historyPointer s < int (length (history s)) - 1
      then (let nextData = js_index (history s) (historyPointer s + 1);
                s1 = s\<lparr>historyPointer := historyPointer s + 1, data := nextData\<rparr>
            in if initialData env = None \<and> user (session env) \<noteq> None
               then (s1, [DbSave nextData], awaited save_reply)
               else (s1, [], Resolved))
      else (s, [], Resolved))"

definition resetData ::
  "'j constants \<Rightarrow> 'j Env \<Rightarrow> reply \<Rightarrow> 'j DataState
     \<Rightarrow> 'j DataState \<times> 'j event list \<times> outcome" where
  "resetData c env save_reply s = saveData env save_reply (INITIAL_DATA c) True s"

definition canUndo :: "'j DataState \<Rightarrow> bool" where
  "canUndo s = (historyPointer s > 0)"

definition canRedo :: "'j DataState \<Rightarrow> bool" where
  "canRedo s = (historyPointer s < int (length (history s)) - 1)"

text \<open>The documents handed to \<open>dbService.save\<close>, in call order.\<close>

fun persisted :: "'j event list \<Rightarrow> 'j AppData option list" where
  "persisted [] = []"
| "persisted (DbSave d # evs) = d # persisted evs"
| "persisted (ConsoleWarn # evs) = persisted evs"
| "persisted (ConsoleError m # evs) = persisted evs"

fun logged_errors :: "'j event list \<Rightarrow> string list" where
  "logged_errors [] = []"
| "logged_errors (ConsoleError m # evs) = m # logged_errors evs"
| "logged_errors (DbSave d # evs) = logged_errors evs"
| "logged_errors (ConsoleWarn # evs) = logged_errors evs"

subsection \<open>Runs of the provider\<close>

text \<open>
  Everything that changes the provider's state: the load effect, the two
  subscription callbacks and the four operations it hands out, each with the
  property and session of the moment and the store's answer. A run applies them
  one after the other, each to the state the previous one left.
\<close>

datatype 'j action =
    LoadEffect "'j Env"
  | OnData "'j AppData"
  | OnError
  | SaveData "'j Env" reply "'j AppData" bool
  | Undo "'j Env" reply
  | Redo "'j Env" reply
  | ResetData "'j Env" reply

fun step :: "'j constants \<Rightarrow> 'j action \<Rightarrow> 'j DataState \<Rightarrow> 'j DataState" where
  "step c (LoadEffect env) s = fst (loadEffect c env s)"
| "step c (OnData loaded) s = onData c loaded s"
| "step c OnError s = fst (onError c s)"
| "step c (SaveData env r newData addToHistory) s = fst (saveData env r newData addToHistory s)"
| "step c (Undo env r) s = fst (undo env r s)"
| "step c (Redo env r) s = fst (redo env r s)"
| "step c (ResetData env r) s = fst (resetData c env r s)"

fun run :: "'j constants \<Rightarrow> 'j action list \<Rightarrow> 'j DataState \<Rightarrow> 'j DataState" where
  "run c [] s = s"
| "run c (a # as) s = run c as (step c a s)"

text \<open>
  A sequence of \<open>saveData\<close> calls, all with \<open>addToHistory\<close> true, each made when the
  one before has returned: the store's answer to each of them settles.
\<close>

fun saves :: "('j Env \<times> string option \<times> 'j AppData) list \<Rightarrow> 'j DataState \<Rightarrow> 'j DataState" where
  "saves [] s = s"
| "saves ((env, r, newData) # calls) s =
     saves calls (fst (saveData env (settled r) newData True s))"

text \<open>The documents such a sequence produces, from the document it starts with.\<close>

fun snapshots :: "'j AppData \<Rightarrow> 'j AppData list \<Rightarrow> 'j AppData list" where
  "snapshots d [] = []"
| "snapshots d (n # ns) = spread d n # snapshots (spread d n) ns"

text \<open>The shape of the history in every state a run reaches.\<close>

definition history_ok :: "'j DataState \<Rightarrow> bool" where
  "history_ok s =
     (length (history s) \<le> 50 \<and>
      - 1 \<le> historyPointer s \<and>
      historyPointer s \<le> int (length (history s)) - 1 \<and>
      (history s = [] \<longleftrightarrow> historyPointer s = - 1))"

section \<open>Concrete sessions, documents and runs\<close>

text \<open>Instances on which the statements below are evaluated; documents over \<open>nat\<close>.\<close>

definition sample_constants :: "nat constants" where
  "sample_constants =
     \<lparr>INITIAL_DATA =
        \<lparr>subjects = Present [1], teachers = Present [], classes = Present [],
         rooms = Present [], schedule = Present [], substitutions = Present [],
         bellSchedule = Present 8, settings = Present [''theme'' \<mapsto> 0]\<rparr>,
      DEFAULT_BELLS = 8, Shift_First = 1, Shift_Second = 2\<rparr>"

definition admin_user :: User where
  "admin_user = \<lparr>uid = ''a1'', email = Some ADMIN_EMAIL\<rparr>"

definition stranger :: User where
  "stranger = \<lparr>uid = ''x9'', email = Some ''someone@example.org''\<rparr>"

text \<open>The session after the provider announced the administrator.\<close>

definition admin_session :: AuthState where
  "admin_session = fst (onAuthStateChanged True (Some admin_user) initial_auth)"

text \<open>The session of a visitor who is not signed in and chose the guest role.\<close>

definition guest_session :: AuthState where
  "guest_session = setGuestRole (fst (onAuthStateChanged True None initial_auth))"

text \<open>The session after the administrator signed in and then chose the guest role.\<close>

definition guest_after_login :: AuthState where
  "guest_after_login = setGuestRole admin_session"

definition with_subjects :: "nat list \<Rightarrow> nat AppData" where
  "with_subjects xs = empty_object\<lparr>subjects := Present xs\<rparr>"

definition admin_env :: "nat Env" where
  "admin_env = \<lparr>initialData = None, session = admin_session\<rparr>"

definition guest_env :: "nat Env" where
  "guest_env = \<lparr>initialData = None, session = guest_session\<rparr>"

definition two_saves :: "nat action list" where
  "two_saves =
     [SaveData admin_env Fulfilled (with_subjects [1]) True,
      SaveData admin_env Fulfilled (with_subjects [2]) True]"

text \<open>A remote document, a local save, then a second remote document.\<close>

definition remote_then_local :: "nat action list" where
  "remote_then_local =
     [OnData (with_subjects [1]),
      SaveData admin_env Fulfilled (with_subjects [2]) True,
      OnData (with_subjects [3])]"

text \<open>A remote document with keys missing, one key null and a bare teacher.\<close>

definition partial_document :: "nat AppData" where
  "partial_document =
     \<lparr>subjects = Present [4],
      teachers = Present [\<lparr>shifts = Absent, telegramChatId = Absent, rest = 7\<rparr>],
      classes = Absent, rooms = Absent, schedule = Nullish, substitutions = Absent,
      bellSchedule = Absent, settings = Present [''lang'' \<mapsto> 3]\<rparr>"

section \<open>The history keeps its shape\<close>

lemma js_slice0_tail: "js_slice0 xs (int (length xs)) = xs"
  by (simp add: js_slice0_def)

lemma length_js_slice0: "length (js_slice0 xs e) \<le> length xs"
  by (simp add: js_slice0_def Let_def)

lemma history_ok_initial: "history_ok (initial_state c)"
  by (simp add: history_ok_def initial_state_def)

lemma saveData_data:
  "data (fst (saveData env r nd a s)) = Some (spread (spreadable (data s)) nd)"
  by (simp add: saveData_def Let_def)

lemma settled_replies [simp]: "settled r \<noteq> NoReply"
  by (cases r) auto

text \<open>A call that returns, with \<open>addToHistory\<close>, has recorded the merged document.\<close>

lemma saveData_history:
  assumes "r \<noteq> NoReply"
  shows "history (fst (saveData env r nd True s)) =
     (let nh = js_slice0 (history s) (historyPointer s + 1) @ [spread (spreadable (data s)) nd]
      in if length nh > 50 then tl nh else nh)"
  using assms by (simp add: saveData_def Let_def)

lemma saveData_pointer:
  assumes "r \<noteq> NoReply"
  shows "historyPointer (fst (saveData env r nd True s)) =
     int (length (history (fst (saveData env r nd True s)))) - 1"
  using assms by (simp add: saveData_def Let_def)

text \<open>
  A call without \<open>addToHistory\<close>, and one left pending at the \<open>await\<close>, leave history
  and pointer alone.
\<close>

lemma saveData_unrecorded:
  "history (fst (saveData env r nd False s)) = history s"
  "historyPointer (fst (saveData env r nd False s)) = historyPointer s"
  by (simp_all add: saveData_def Let_def)

lemma saveData_outcome:
  "snd (snd (saveData env r nd a s)) =
     (if initialData env = None \<and> user (session env) \<noteq> None \<and> r = NoReply
      then Pending else Resolved)"
  by (simp add: saveData_def Let_def)

lemma saveData_pending:
  assumes "snd (snd (saveData env r nd a s)) = Pending"
  shows "fst (saveData env r nd a s) = s\<lparr>data := Some (spread (spreadable (data s)) nd)\<rparr>"
proof -
  from assms have "initialData env = None \<and> user (session env) \<noteq> None \<and> r = NoReply"
    by (simp add: saveData_outcome split: if_splits)
  then show ?thesis
    by (simp add: saveData_def Let_def)
qed

lemma saveData_returned:
  assumes "snd (snd (saveData env r nd a s)) \<noteq> Pending"
  shows "fst (saveData env r nd a s) = fst (saveData env Fulfilled nd a s)"
proof -
  from assms have "\<not> (initialData env = None \<and> user (session env) \<noteq> None \<and> r = NoReply)"
    by (simp add: saveData_outcome split: if_splits)
  then show ?thesis
    by (auto simp add: saveData_def Let_def)
qed

lemma saveData_history_ok:
  assumes "history_ok s"
  shows "history_ok (fst (saveData env r nd a s))"
proof (cases "snd (snd (saveData env r nd a s)) = Pending")
  case True
  then show ?thesis
    using assms by (simp add: saveData_pending history_ok_def)
next
  case returned: False
  show ?thesis
  proof (cases a)
    case False
    with assms show ?thesis by (simp add: history_ok_def saveData_unrecorded)
  next
    case True
    have l: "length (js_slice0 (history s) (historyPointer s + 1)) \<le> 50"
      using assms length_js_slice0 [of "history s" "historyPointer s + 1"]
      by (simp add: history_ok_def)
    have "history_ok (fst (saveData env Fulfilled nd True s))"
      unfolding history_ok_def
      using l by (auto simp add: saveData_def Let_def)
    then show ?thesis
      using returned True saveData_returned [of env r nd a s] by simp
  qed
qed

lemma undo_history_ok: "history_ok s \<Longrightarrow> history_ok (fst (undo env r s))"
  by (auto simp add: undo_def history_ok_def Let_def)

lemma redo_history_ok: "history_ok s \<Longrightarrow> history_ok (fst (redo env r s))"
  by (auto simp add: redo_def history_ok_def Let_def)

lemma onData_history_ok: "history_ok s \<Longrightarrow> history_ok (onData c l s)"
  by (auto simp add: onData_def history_ok_def Let_def)

lemma onError_history_ok: "history_ok s \<Longrightarrow> history_ok (fst (onError c s))"
  by (auto simp add: onError_def history_ok_def Let_def)

lemma loadEffect_history_ok: "history_ok s \<Longrightarrow> history_ok (fst (loadEffect c env s))"
  by (auto simp add: loadEffect_def history_ok_def Let_def split: option.splits)

lemma step_history_ok: "history_ok s \<Longrightarrow> history_ok (step c a s)"
  by (cases a) (simp_all add: saveData_history_ok undo_history_ok redo_history_ok
      onData_history_ok onError_history_ok loadEffect_history_ok resetData_def)

lemma run_history_ok: "history_ok s \<Longrightarrow> history_ok (run c as s)"
  by (induction as arbitrary: s) (simp_all add: step_history_ok)

lemma reachable_history_ok: "history_ok (run c as (initial_state c))"
  by (simp add: run_history_ok history_ok_initial)

subsection \<open>Saves in a row\<close>

lemma saves_snoc: "saves (calls @ [call]) s = saves [call] (saves calls s)"
  by (induction calls arbitrary: s) auto

lemma saves_run:
  "saves calls s = run c (map (\<lambda>(env, r, nd). SaveData env (settled r) nd True) calls) s"
  by (induction calls arbitrary: s) auto

lemma length_snapshots: "length (snapshots d ns) = length ns"
  by (induction ns arbitrary: d) auto

lemma saveData_at_tail:
  assumes "historyPointer s = int (length (history s)) - 1" and "r \<noteq> NoReply"
  shows "history (fst (saveData env r nd True s)) =
           (if length (history s) \<ge> 50 then tl (history s @ [spread (spreadable (data s)) nd])
            else history s @ [spread (spreadable (data s)) nd])"
  using assms by (simp add: saveData_history js_slice0_tail Let_def)

text \<open>
  From a state whose pointer is at the tail, a row of saves leaves the last 50 of
  the old entries followed by the new documents.
\<close>

lemma saves_history_general:
  assumes "historyPointer s = int (length (history s)) - 1"
    and "length (history s) \<le> 50"
  shows "history (saves calls s) =
           drop (length (history s) + length calls - 50)
                (history s @ snapshots (spreadable (data s)) (map (\<lambda>call. snd (snd call)) calls))"
  using assms
proof (induction calls arbitrary: s)
  case Nil
  then show ?case by simp
next
  case (Cons call calls)
  obtain env r nd where call: "call = (env, r, nd)" by (cases call) auto
  let ?m = "spread (spreadable (data s)) nd"
  let ?s1 = "fst (saveData env (settled r) nd True s)"
  have h1: "history ?s1 = (if length (history s) \<ge> 50 then tl (history s @ [?m]) else history s @ [?m])"
    using Cons.prems(1) by (rule saveData_at_tail) simp
  have p1: "historyPointer ?s1 = int (length (history ?s1)) - 1"
    by (rule saveData_pointer) simp
  have l1: "length (history ?s1) \<le> 50"
    using h1 Cons.prems(2) by (simp split: if_splits)
  have d1: "spreadable (data ?s1) = ?m"
    by (simp add: saveData_data)
  have IH: "history (saves calls ?s1) =
      drop (length (history ?s1) + length calls - 50)
        (history ?s1 @ snapshots ?m (map (\<lambda>call. snd (snd call)) calls))"
    using Cons.IH [OF p1 l1] d1 by simp
  show ?case
  proof (cases "length (history s) \<ge> 50")
    case True
    then have len: "length (history s) = 50" using Cons.prems(2) by simp
    then obtain x xs where hx: "history s = x # xs" by (cases "history s") auto
    have "history ?s1 = xs @ [?m]"
      using h1 True hx by simp
    then show ?thesis
      using IH len call hx by simp
  next
    case False
    then show ?thesis
      using IH h1 call by simp
  qed
qed

lemma saves_history_initial:
  "history (saves calls (initial_state c)) =
     drop (length calls - 50) (snapshots (INITIAL_DATA c) (map (\<lambda>call. snd (snd call)) calls))"
  using saves_history_general [of "initial_state c" calls]
  by (simp add: initial_state_def)

section \<open>Facts about single operations\<close>

lemma two_saves_state:
  "run sample_constants two_saves (initial_state sample_constants) =
     \<lparr>data = Some (spread (INITIAL_DATA sample_constants) (with_subjects [2])),
      isLoading = True,
      history = [spread (INITIAL_DATA sample_constants) (with_subjects [1]),
                 spread (INITIAL_DATA sample_constants) (with_subjects [2])],
      historyPointer = 1\<rparr>"
  by (simp add: two_saves_def saveData_def Let_def initial_state_def js_slice0_def spread_def
      with_subjects_def empty_object_def)

lemma guest_env_no_user: "user (session guest_env) = None"
  by (simp add: guest_env_def guest_session_def setGuestRole_def onAuthStateChanged_def
      initial_auth_def)

lemma guest_env_role: "role (session guest_env) = Some guest"
  by (simp add: guest_env_def guest_session_def setGuestRole_def onAuthStateChanged_def
      initial_auth_def)

lemma subjects_with_subjects: "subjects (spread d (with_subjects xs)) = Present xs"
  by (simp add: spread_def with_subjects_def empty_object_def)

lemma last_tl: "length xs > 1 \<Longrightarrow> last (tl xs) = last xs"
  by (cases xs) auto

lemma saveData_recorded_last:
  assumes "r \<noteq> NoReply"
  shows "history (fst (saveData env r nd True s)) \<noteq> [] \<and>
   last (history (fst (saveData env r nd True s))) = spread (spreadable (data s)) nd"
  using assms
  by (simp add: saveData_history Let_def last_tl)
     (cases "js_slice0 (history s) (historyPointer s + 1)"; simp)

text \<open>
  \<open>saveData\<close> swallows a failure of the store: its promise resolves, the state is
  the one a successful save leaves, and the failure is logged.
\<close>

lemma saveData_failure_swallowed:
  "snd (snd (saveData env (Failed e) newData addToHistory s)) = Resolved \<and>
   fst (saveData env (Failed e) newData addToHistory s) =
     fst (saveData env Fulfilled newData addToHistory s) \<and>
   (persisted (fst (snd (saveData env (Failed e) newData addToHistory s))) \<noteq> [] \<longrightarrow>
      logged_errors (fst (snd (saveData env (Failed e) newData addToHistory s))) =
        [''Save failed silently in background''])"
  by (simp add: saveData_def Let_def)

text \<open>Neither \<open>undo\<close> nor \<open>redo\<close> takes its state change back when the store fails.\<close>

lemma undo_redo_no_rollback:
  "fst (undo env (Failed e) s) = fst (undo env Fulfilled s) \<and>
   fst (redo env (Failed e) s) = fst (redo env Fulfilled s)"
  by (simp add: undo_def redo_def Let_def)

subsection \<open>The document built on load, property by property\<close>




section \<open>The claims\<close>

text \<open>
  C1, as amended. A call of \<open>saveData\<close> made with no signed-in user and the guest
  role never calls \<open>dbService.save\<close>: it logs the warning and nothing else, its
  promise resolves, and the merged document becomes the current data all the
  same.
\<close>

theorem saveData_guest_local_only:
  assumes "user (session env) = None" and "role (session env) = Some guest"
  shows "fst (snd (saveData env r newData addToHistory s)) = [ConsoleWarn] \<and>
         persisted (fst (snd (saveData env r newData addToHistory s))) = [] \<and>
         snd (snd (saveData env r newData addToHistory s)) = Resolved \<and>
         data (fst (saveData env r newData addToHistory s)) =
           Some (spread (spreadable (data s)) newData)"
  using assms by (simp add: saveData_def Let_def)

theorem saveData_guest_local_only_witness:
  "user (session guest_env) = None \<and> role (session guest_env) = Some guest \<and>
   fst (snd (saveData guest_env Fulfilled (with_subjects [2]) True (initial_state sample_constants)))
     = [ConsoleWarn] \<and>
   subjects (spreadable (data (fst (saveData guest_env Fulfilled (with_subjects [2]) True
     (initial_state sample_constants))))) = Present [2]"
proof -
  have u: "user (session guest_env) = None" by (rule guest_env_no_user)
  have g: "role (session guest_env) = Some guest" by (rule guest_env_role)
  show ?thesis
    using u g saveData_guest_local_only [OF u g, of Fulfilled "with_subjects [2]" True
        "initial_state sample_constants"]
    by (simp add: initial_state_def sample_constants_def spread_def with_subjects_def
        empty_object_def)
qed

text \<open>
  C1 as stated fails: \<open>setGuestRole\<close> leaves the user in place, so after the
  administrator signed in and chose the guest role, the role is guest and
  \<open>saveData\<close> hands the merged document to \<open>dbService.save\<close>.
\<close>

theorem saveData_guest_role_with_user_persists:
  "role guest_after_login = Some guest \<and>
   persisted (fst (snd (saveData \<lparr>initialData = None, session = guest_after_login\<rparr> Fulfilled
      (with_subjects [2]) True (initial_state sample_constants))))
     = [Some (spread (INITIAL_DATA sample_constants) (with_subjects [2]))]"
  by (simp add: guest_after_login_def setGuestRole_def admin_session_def onAuthStateChanged_def
      admin_user_def initial_auth_def saveData_def Let_def initial_state_def)

text \<open>
  C2. After every call in a row of \<open>saveData\<close> calls with \<open>addToHistory\<close> true, each
  made when the one before has returned and the first in any state a run
  reaches, the history has at most 50 entries and the pointer
  is its last index. In every state a run reaches the pointer lies between \<open>-1\<close>
  and the last index. When the row begins with the pointer at the tail, it leaves
  the last 50 of the old entries followed by the new documents: on overflow the
  oldest entries go first.
\<close>

theorem history_capped_pointer_at_tail:
  "length (history (saves (calls @ [call]) (run c acts (initial_state c)))) \<le> 50 \<and>
   historyPointer (saves (calls @ [call]) (run c acts (initial_state c))) =
     int (length (history (saves (calls @ [call]) (run c acts (initial_state c))))) - 1 \<and>
   - 1 \<le> historyPointer (run c acts (initial_state c)) \<and>
   historyPointer (run c acts (initial_state c))
     \<le> int (length (history (run c acts (initial_state c)))) - 1 \<and>
   length (history (run c acts (initial_state c))) \<le> 50 \<and>
   (historyPointer (run c acts (initial_state c)) =
      int (length (history (run c acts (initial_state c)))) - 1 \<longrightarrow>
    history (saves calls (run c acts (initial_state c))) =
      drop (length (history (run c acts (initial_state c))) + length calls - 50)
        (history (run c acts (initial_state c)) @
         snapshots (spreadable (data (run c acts (initial_state c))))
           (map (\<lambda>call. snd (snd call)) calls)))"
proof -
  let ?s0 = "run c acts (initial_state c)"
  have ok0: "history_ok ?s0"
    by (rule reachable_history_ok)
  have "history_ok (saves (calls @ [call]) ?s0)"
    using ok0 by (simp add: saves_run [of _ _ c] run_history_ok)
  then have a: "length (history (saves (calls @ [call]) ?s0)) \<le> 50"
    by (simp add: history_ok_def)
  obtain env r nd where call: "call = (env, r, nd)" by (cases call) auto
  have b: "historyPointer (saves (calls @ [call]) ?s0) =
     int (length (history (saves (calls @ [call]) ?s0))) - 1"
    unfolding saves_snoc call by (simp add: saveData_pointer)
  have l0: "length (history ?s0) \<le> 50"
    using ok0 by (simp add: history_ok_def)
  have d: "historyPointer ?s0 = int (length (history ?s0)) - 1 \<longrightarrow>
    history (saves calls ?s0) =
      drop (length (history ?s0) + length calls - 50)
        (history ?s0 @ snapshots (spreadable (data ?s0)) (map (\<lambda>call. snd (snd call)) calls))"
    using saves_history_general [of ?s0 calls] l0 by blast
  show ?thesis
    using a b d ok0 by (simp add: history_ok_def)
qed

text \<open>Fifty-one saves from the start leave exactly fifty entries, the first one gone.\<close>

theorem history_capped_51_saves:
  "historyPointer (run sample_constants [] (initial_state sample_constants)) =
     int (length (history (run sample_constants [] (initial_state sample_constants)))) - 1 \<and>
   history (saves (replicate 51 (admin_env, None, with_subjects [2]))
     (initial_state sample_constants)) =
     tl (snapshots (INITIAL_DATA sample_constants) (replicate 51 (with_subjects [2]))) \<and>
   length (history (saves (replicate 51 (admin_env, None, with_subjects [2]))
     (initial_state sample_constants))) = 50"
proof -
  have p: "historyPointer (run sample_constants [] (initial_state sample_constants)) =
     int (length (history (run sample_constants [] (initial_state sample_constants)))) - 1"
    by (simp add: initial_state_def)
  have h: "history (saves (replicate 51 (admin_env, None, with_subjects [2]))
     (initial_state sample_constants)) =
     drop 1 (snapshots (INITIAL_DATA sample_constants) (replicate 51 (with_subjects [2])))"
    using p history_capped_pointer_at_tail
      [of "replicate 51 (admin_env, None, with_subjects [2])" _ sample_constants "[]"]
    by (simp add: initial_state_def)
  show ?thesis
    using p h by (simp add: length_snapshots drop_Suc)
qed

text \<open>
  C3. \<open>saveData\<close> catches a failure of the store, logs it and resolves. \<open>undo\<close> and
  \<open>redo\<close> await \<open>dbService.save\<close> outside any \<open>try\<close>: when the store rejects, their
  promise rejects with the store's error and nothing is logged. Here the
  administrator has saved twice and the store then fails.
\<close>

theorem undo_redo_store_failure_rejects:
  "snd (snd (saveData admin_env (Failed ''unavailable'') (with_subjects [3]) True
       (run sample_constants two_saves (initial_state sample_constants))))
     = Resolved \<and>
   logged_errors (fst (snd (saveData admin_env (Failed ''unavailable'') (with_subjects [3]) True
       (run sample_constants two_saves (initial_state sample_constants)))))
     = [''Save failed silently in background''] \<and>
   snd (snd (undo admin_env (Failed ''unavailable'')
       (run sample_constants two_saves (initial_state sample_constants))))
     = Rejected ''unavailable'' \<and>
   logged_errors (fst (snd (undo admin_env (Failed ''unavailable'')
       (run sample_constants two_saves (initial_state sample_constants))))) = [] \<and>
   snd (snd (redo admin_env (Failed ''unavailable'')
       (fst (undo admin_env Fulfilled (run sample_constants two_saves (initial_state sample_constants))))))
     = Rejected ''unavailable''"
  by (simp add: two_saves_def admin_env_def admin_session_def onAuthStateChanged_def admin_user_def
      initial_auth_def saveData_def undo_def redo_def Let_def initial_state_def js_slice0_def
      js_index_def)

text \<open>
  C4, as amended. In every state a run reaches in which undo is enabled, \<open>undo\<close>
  followed by \<open>redo\<close> changes nothing but the current data, which becomes the
  history entry under the pointer; so the current data is what it was before
  whenever it was that entry.
\<close>

theorem undo_redo_restores_snapshot:
  "canUndo (run c acts (initial_state c)) \<longrightarrow>
     fst (redo env' r' (fst (undo env r (run c acts (initial_state c))))) =
       (run c acts (initial_state c))
         \<lparr>data := js_index (history (run c acts (initial_state c)))
                    (historyPointer (run c acts (initial_state c)))\<rparr> \<and>
     (data (run c acts (initial_state c)) =
        js_index (history (run c acts (initial_state c)))
          (historyPointer (run c acts (initial_state c))) \<longrightarrow>
      data (fst (redo env' r' (fst (undo env r (run c acts (initial_state c)))))) =
        data (run c acts (initial_state c)))"
proof -
  let ?s = "run c acts (initial_state c)"
  have ok: "history_ok ?s" by (rule reachable_history_ok)
  show ?thesis
  proof (intro impI)
    assume cu: "canUndo ?s"
    have "fst (redo env' r' (fst (undo env r ?s))) =
            ?s\<lparr>data := js_index (history ?s) (historyPointer ?s)\<rparr>"
      using ok cu by (simp add: undo_def redo_def canUndo_def history_ok_def Let_def js_index_def)
    then show "fst (redo env' r' (fst (undo env r ?s))) =
            ?s\<lparr>data := js_index (history ?s) (historyPointer ?s)\<rparr> \<and>
          (data ?s = js_index (history ?s) (historyPointer ?s) \<longrightarrow>
           data (fst (redo env' r' (fst (undo env r ?s)))) = data ?s)"
      by simp
  qed
qed

theorem undo_redo_restores_snapshot_witness:
  "canUndo (run sample_constants two_saves (initial_state sample_constants)) \<and>
   data (fst (redo admin_env Fulfilled (fst (undo admin_env Fulfilled
      (run sample_constants two_saves (initial_state sample_constants)))))) =
     data (run sample_constants two_saves (initial_state sample_constants))"
proof -
  let ?s = "run sample_constants two_saves (initial_state sample_constants)"
  have cu: "canUndo ?s"
    by (simp add: two_saves_state canUndo_def)
  have d: "data ?s = js_index (history ?s) (historyPointer ?s)"
    by (simp add: two_saves_state js_index_def)
  show ?thesis
    using cu d undo_redo_restores_snapshot
      [of sample_constants two_saves admin_env Fulfilled admin_env Fulfilled]
    by blast
qed

text \<open>
  C4 as stated fails: a remote document replaces the current data and leaves the
  history alone, so after it \<open>undo\<close> and \<open>redo\<close> bring back the last saved entry
  and not the remote document that was current.
\<close>

theorem undo_redo_after_remote_update_differs:
  "canUndo (run sample_constants remote_then_local (initial_state sample_constants)) \<and>
   data (fst (redo admin_env Fulfilled (fst (undo admin_env Fulfilled
      (run sample_constants remote_then_local (initial_state sample_constants)))))) \<noteq>
     data (run sample_constants remote_then_local (initial_state sample_constants))"
  by (simp add: remote_then_local_def onData_def fixedData_def saveData_def undo_def redo_def
      canUndo_def Let_def initial_state_def js_slice0_def js_index_def spread_def with_subjects_def
      empty_object_def sample_constants_def)

text \<open>
  C5. With the pointer at 0, \<open>undo\<close> returns the state as it was, calls nothing and
  resolves; with the pointer at the last index, so does \<open>redo\<close>.
\<close>

theorem undo_redo_noop_at_ends:
  "(historyPointer s = 0 \<longrightarrow> undo env r s = (s, [], Resolved)) \<and>
   (historyPointer s = int (length (history s)) - 1 \<longrightarrow> redo env r s = (s, [], Resolved))"
  by (simp add: undo_def redo_def)

theorem undo_redo_noop_at_ends_witness:
  "historyPointer (run sample_constants [SaveData admin_env Fulfilled (with_subjects [1]) True]
      (initial_state sample_constants)) = 0 \<and>
   undo admin_env Fulfilled (run sample_constants [SaveData admin_env Fulfilled (with_subjects [1]) True]
      (initial_state sample_constants))
     = (run sample_constants [SaveData admin_env Fulfilled (with_subjects [1]) True]
          (initial_state sample_constants), [], Resolved) \<and>
   redo admin_env Fulfilled (run sample_constants [SaveData admin_env Fulfilled (with_subjects [1]) True]
      (initial_state sample_constants))
     = (run sample_constants [SaveData admin_env Fulfilled (with_subjects [1]) True]
          (initial_state sample_constants), [], Resolved)"
proof -
  let ?s = "run sample_constants [SaveData admin_env Fulfilled (with_subjects [1]) True]
      (initial_state sample_constants)"
  have p: "historyPointer ?s = 0"
    by (simp add: saveData_def Let_def initial_state_def js_slice0_def)
  have l: "historyPointer ?s = int (length (history ?s)) - 1"
    by (simp add: saveData_def Let_def initial_state_def js_slice0_def)
  show ?thesis
    using p l undo_redo_noop_at_ends [of ?s admin_env Fulfilled] by blast
qed

text \<open>
  C6. When the provider announces a signed-in identity whose email is neither the
  administrator's nor the teacher's, the callback leaves the role absent and calls
  \<open>signOut\<close> exactly once.
\<close>

theorem unknown_identity_signed_out:
  assumes "email u \<noteq> Some ADMIN_EMAIL" and "email u \<noteq> Some TEACHER_EMAIL"
  shows "role (fst (onAuthStateChanged True (Some u) st)) = None \<and>
         count_list (snd (onAuthStateChanged True (Some u) st)) SignOut = 1"
  using assms by (simp add: onAuthStateChanged_def Let_def)

theorem unknown_identity_signed_out_witness:
  "email stranger \<noteq> Some ADMIN_EMAIL \<and> email stranger \<noteq> Some TEACHER_EMAIL \<and>
   role (fst (onAuthStateChanged True (Some stranger) admin_session)) = None \<and>
   count_list (snd (onAuthStateChanged True (Some stranger) admin_session)) SignOut = 1"
proof -
  have a: "email stranger \<noteq> Some ADMIN_EMAIL" by (simp add: stranger_def ADMIN_EMAIL_def)
  have t: "email stranger \<noteq> Some TEACHER_EMAIL" by (simp add: stranger_def TEACHER_EMAIL_def)
  show ?thesis
    using a t unknown_identity_signed_out [OF a t, of admin_session] by simp
qed



text \<open>
  C8. In every state a run reaches, a delivered document becomes the current
  data; it seeds the history, with the pointer at 0, when the history is empty,
  and leaves history and pointer as they are when it is not.
\<close>

theorem remote_document_keeps_history:
  "data (onData c loaded (run c acts (initial_state c))) = Some (fixedData c loaded) \<and>
   (history (run c acts (initial_state c)) = [] \<longrightarrow>
      history (onData c loaded (run c acts (initial_state c))) = [fixedData c loaded] \<and>
      historyPointer (onData c loaded (run c acts (initial_state c))) = 0) \<and>
   (history (run c acts (initial_state c)) \<noteq> [] \<longrightarrow>
      history (onData c loaded (run c acts (initial_state c))) =
        history (run c acts (initial_state c)) \<and>
      historyPointer (onData c loaded (run c acts (initial_state c))) =
        historyPointer (run c acts (initial_state c)))"
proof -
  let ?s = "run c acts (initial_state c)"
  have "history_ok ?s" by (rule reachable_history_ok)
  then have "history ?s = [] \<longleftrightarrow> historyPointer ?s = - 1"
    by (simp add: history_ok_def)
  then show ?thesis
    by (simp add: onData_def Let_def)
qed

theorem remote_document_keeps_history_witness:
  "history (run sample_constants [] (initial_state sample_constants)) = [] \<and>
   history (onData sample_constants partial_document
      (run sample_constants [] (initial_state sample_constants)))
     = [fixedData sample_constants partial_document] \<and>
   historyPointer (onData sample_constants partial_document
      (run sample_constants [] (initial_state sample_constants))) = 0 \<and>
   history (run sample_constants two_saves (initial_state sample_constants)) \<noteq> [] \<and>
   history (onData sample_constants partial_document
      (run sample_constants two_saves (initial_state sample_constants)))
     = history (run sample_constants two_saves (initial_state sample_constants)) \<and>
   historyPointer (onData sample_constants partial_document
      (run sample_constants two_saves (initial_state sample_constants))) = 1 \<and>
   data (onData sample_constants partial_document
      (run sample_constants two_saves (initial_state sample_constants)))
     = Some (fixedData sample_constants partial_document)"
proof -
  have e: "history (run sample_constants [] (initial_state sample_constants)) = []"
    by (simp add: initial_state_def)
  have n: "history (run sample_constants two_saves (initial_state sample_constants)) \<noteq> []"
    by (simp add: two_saves_state)
  have p: "historyPointer (run sample_constants two_saves (initial_state sample_constants)) = 1"
    by (simp add: two_saves_state)
  show ?thesis
    using e n p
      remote_document_keeps_history [of sample_constants partial_document "[]"]
      remote_document_keeps_history [of sample_constants partial_document two_saves]
    by simp
qed

text \<open>
  C9. A settings object in the update given to \<open>saveData\<close> becomes the settings of
  the current data as it is, with none of the previous keys kept; a settings
  object in a delivered document is merged key by key over the default settings.
\<close>

theorem saveData_replaces_settings:
  "(settings newData = Present m \<longrightarrow>
      map_option settings (data (fst (saveData env r newData addToHistory s))) = Some (Present m)) \<and>
   (settings loaded = Present m \<longrightarrow>
      settings (fixedData c loaded) = Present (own (settings (INITIAL_DATA c)) ++ m))"
  by (simp add: saveData_def fixedData_def spread_def Let_def)

theorem saveData_replaces_settings_witness:
  "settings partial_document = Present [''lang'' \<mapsto> 3] \<and>
   own (settings (INITIAL_DATA sample_constants)) ''theme'' = Some 0 \<and>
   map_option (\<lambda>d. own (settings d) ''theme'')
     (data (fst (saveData admin_env Fulfilled partial_document True (initial_state sample_constants))))
     = Some None \<and>
   map_option (\<lambda>d. own (settings d) ''lang'')
     (data (fst (saveData admin_env Fulfilled partial_document True (initial_state sample_constants))))
     = Some (Some 3) \<and>
   own (settings (fixedData sample_constants partial_document)) ''theme'' = Some 0 \<and>
   own (settings (fixedData sample_constants partial_document)) ''lang'' = Some 3"
proof -
  have p: "settings partial_document = Present [''lang'' \<mapsto> 3]"
    by (simp add: partial_document_def)
  have i: "settings (INITIAL_DATA sample_constants) = Present [''theme'' \<mapsto> 0]"
    by (simp add: sample_constants_def)
  have d: "data (fst (saveData admin_env Fulfilled partial_document True (initial_state sample_constants)))
     = Some (spread (INITIAL_DATA sample_constants) partial_document)"
    by (simp add: saveData_data initial_state_def)
  show ?thesis
    using p saveData_replaces_settings [of partial_document "[''lang'' \<mapsto> 3]" admin_env Fulfilled True
        "initial_state sample_constants" partial_document sample_constants]
    by (simp add: i d)
qed

text \<open>
  C10. With no signed-in user, whatever the role, \<open>saveData\<close>, \<open>undo\<close> and \<open>redo\<close>
  never call \<open>dbService.save\<close> and their promises resolve. The local change is
  made all the same: the merged document is the current data and, with
  \<open>addToHistory\<close>, the last history entry with the pointer on it; \<open>undo\<close> and \<open>redo\<close>
  move the pointer and make the entry under it the current data, as they do with
  any other session and store.
\<close>

theorem no_user_no_persistence:
  assumes "user (session env) = None"
  shows "persisted (fst (snd (saveData env r newData addToHistory s))) = [] \<and>
         persisted (fst (snd (undo env r s))) = [] \<and>
         persisted (fst (snd (redo env r s))) = [] \<and>
         snd (snd (saveData env r newData addToHistory s)) = Resolved \<and>
         snd (snd (undo env r s)) = Resolved \<and>
         snd (snd (redo env r s)) = Resolved \<and>
         fst (undo env r s) = fst (undo env' r' s) \<and>
         fst (redo env r s) = fst (redo env' r' s) \<and>
         data (fst (saveData env r newData addToHistory s)) = Some (spread (spreadable (data s)) newData) \<and>
         (addToHistory \<longrightarrow>
            history (fst (saveData env r newData addToHistory s)) \<noteq> [] \<and>
            last (history (fst (saveData env r newData addToHistory s))) = spread (spreadable (data s)) newData \<and>
            historyPointer (fst (saveData env r newData addToHistory s)) =
              int (length (history (fst (saveData env r newData addToHistory s)))) - 1) \<and>
         (historyPointer s > 0 \<longrightarrow>
            historyPointer (fst (undo env r s)) = historyPointer s - 1 \<and>
            data (fst (undo env r s)) = js_index (history s) (historyPointer s - 1)) \<and>
         (historyPointer s < int (length (history s)) - 1 \<longrightarrow>
            historyPointer (fst (redo env r s)) = historyPointer s + 1 \<and>
            data (fst (redo env r s)) = js_index (history s) (historyPointer s + 1))"
proof -
  have a: "persisted (fst (snd (saveData env r newData addToHistory s))) = []"
    using assms by (simp add: saveData_def Let_def)
  have b: "persisted (fst (snd (undo env r s))) = []" "persisted (fst (snd (redo env r s))) = []"
    using assms by (simp_all add: undo_def redo_def Let_def)
  have c: "snd (snd (saveData env r newData addToHistory s)) = Resolved"
    "snd (snd (undo env r s)) = Resolved" "snd (snd (redo env r s)) = Resolved"
    using assms by (simp_all add: saveData_outcome undo_def redo_def Let_def)
  have d: "fst (undo env r s) = fst (undo env' r' s)" "fst (redo env r s) = fst (redo env' r' s)"
    by (simp_all add: undo_def redo_def Let_def)
  have e: "addToHistory \<longrightarrow>
            history (fst (saveData env r newData addToHistory s)) \<noteq> [] \<and>
            last (history (fst (saveData env r newData addToHistory s))) = spread (spreadable (data s)) newData \<and>
            historyPointer (fst (saveData env r newData addToHistory s)) =
              int (length (history (fst (saveData env r newData addToHistory s)))) - 1"
  proof -
    have "fst (saveData env r newData addToHistory s) =
            fst (saveData env Fulfilled newData addToHistory s)"
      using c(1) by (simp add: saveData_returned)
    then show ?thesis
      using saveData_recorded_last [where r = Fulfilled and env = env and nd = newData and s = s]
        saveData_pointer [where r = Fulfilled and env = env and nd = newData and s = s]
      by (cases addToHistory) simp_all
  qed
  have f: "historyPointer s > 0 \<longrightarrow>
            historyPointer (fst (undo env r s)) = historyPointer s - 1 \<and>
            data (fst (undo env r s)) = js_index (history s) (historyPointer s - 1)"
     "historyPointer s < int (length (history s)) - 1 \<longrightarrow>
            historyPointer (fst (redo env r s)) = historyPointer s + 1 \<and>
            data (fst (redo env r s)) = js_index (history s) (historyPointer s + 1)"
    by (simp_all add: undo_def redo_def Let_def)
  from a b c d e f saveData_data [of env r newData addToHistory s] show ?thesis by blast
qed

theorem no_user_no_persistence_witness:
  "user (session guest_env) = None \<and>
   persisted (fst (snd (saveData guest_env Fulfilled (with_subjects [3]) True
      (run sample_constants two_saves (initial_state sample_constants))))) = [] \<and>
   map_option subjects (data (fst (saveData guest_env Fulfilled (with_subjects [3]) True
      (run sample_constants two_saves (initial_state sample_constants))))) = Some (Present [3]) \<and>
   historyPointer (fst (saveData guest_env Fulfilled (with_subjects [3]) True
      (run sample_constants two_saves (initial_state sample_constants)))) = 2 \<and>
   persisted (fst (snd (undo guest_env Fulfilled
      (run sample_constants two_saves (initial_state sample_constants))))) = [] \<and>
   historyPointer (fst (undo guest_env Fulfilled
      (run sample_constants two_saves (initial_state sample_constants)))) = 0 \<and>
   map_option subjects (data (fst (undo guest_env Fulfilled
      (run sample_constants two_saves (initial_state sample_constants))))) = Some (Present [1])"
proof -
  let ?s = "run sample_constants two_saves (initial_state sample_constants)"
  have u: "user (session guest_env) = None" by (rule guest_env_no_user)
  have s: "historyPointer ?s > 0" "data ?s = Some (spread (INITIAL_DATA sample_constants) (with_subjects [2]))"
    "history ?s = [spread (INITIAL_DATA sample_constants) (with_subjects [1]), spread (INITIAL_DATA sample_constants) (with_subjects [2])]"
    "historyPointer ?s = 1"
    by (simp_all add: two_saves_state)
  have l: "length (history (fst (saveData guest_env Fulfilled (with_subjects [3]) True ?s))) = 3"
    by (simp add: saveData_history s js_slice0_def)
  show ?thesis
    using u s(1) no_user_no_persistence [OF u, where r = Fulfilled and newData = "with_subjects [3]"
        and addToHistory = True and s = ?s and env' = guest_env and r' = Fulfilled]
    by (simp add: s l js_index_def subjects_with_subjects)
qed

end
